theory Spec2Isabelle
  imports Main "HOL-Library.AList"
begin

section \<open>Data model\<close>

text \<open>
  The reconciler of package \<open>declarative\<close> works on a custom resource through the
  interface \<open>BaseCustomObject\<close>. The structs of package \<open>types\<close> are not part of the
  sources at hand; their fields are the ones the reconciler reads and writes.
\<close>

type_synonym CustomState = string

text \<open>Modelled from the spec: the constants of the missing package \<open>types\<close>; the
  state enum is \<open>{Empty, Processing, Ready, Error, Deleting}\<close>, \<open>Empty\<close> being the
  absence of the field (the empty string of the \<open>switch\<close> in \<open>Reconcile\<close>).\<close>

definition CustomStateProcessing :: CustomState where
  "CustomStateProcessing = ''Processing''"

definition CustomStateDeleting :: CustomState where
  "CustomStateDeleting = ''Deleting''"

definition CustomStateError :: CustomState where
  "CustomStateError = ''Error''"

definition CustomStateReady :: CustomState where
  "CustomStateReady = ''Ready''"

definition deletionFinalizer :: string where
  "deletionFinalizer = ''custom-deletion-finalizer''"

text \<open>Go's \<open>error\<close> values: the type error built by \<open>getTypeError\<close>, the API
  server's not-found error, an error raised by a collaborator, and an error that
  \<open>fmt.Errorf\<close> builds around another one.\<close>

datatype error =
    TypeError string
  | NotFound
  | Failure string
  | Errorf string error

text \<open>Modelled from the spec: \<open>Condition\<close>, \<open>CustomObjectStatus\<close> and
  \<open>CustomObjectSpec\<close> of the missing package \<open>types\<close>: a condition is
  \<open>{type, lastTransitionTime, installInfo-snapshot}\<close>, the status holds the state and
  the ordered conditions, the spec holds the chart locator, the release name and the
  free-form configuration flags.\<close>

record Condition =
  condType :: string
  lastTransitionTime :: nat
  installInfoSnapshot :: string

record CustomObjectStatus =
  State :: CustomState
  Conditions :: "Condition list"

record CustomObjectSpec =
  ChartPath :: string
  ReleaseName :: string
  ChartFlags :: string

text \<open>The part of \<open>metav1.Object\<close> the reconciler uses. A deletion timestamp is a
  pointer to a time (seconds, the zero time being 0); the labels are a Go map, which
  is \<open>nil\<close> for an object without labels.\<close>

record ObjectMeta =
  Namespace :: string
  Name :: string
  DeletionTimestamp :: "nat option"
  Finalizers :: "string list"
  Labels :: "(string \<times> string) list option"

text \<open>The schema-less attribute tree of \<open>unstructured.Unstructured\<close>
  (\<open>map[string]interface{}\<close>).\<close>

datatype jv =
    JNull
  | JBool bool
  | JNum int
  | JStr string
  | JList "jv list"
  | JMap "(string \<times> jv) list"

type_synonym tree = "(string \<times> jv) list"

text \<open>The dynamic type behind a \<open>BaseCustomObject\<close>, in the order of the type
  switches of the source: a \<open>types.CustomObject\<close> (typed access to spec and status),
  an \<open>*unstructured.Unstructured\<close> (its \<open>Object\<close> map, taken non-nil as for every
  object read from the cluster; the metadata is kept beside the tree), or any other
  type.\<close>

datatype BaseCustomObject =
    CustomObject ObjectMeta CustomObjectSpec CustomObjectStatus
  | Unstructured ObjectMeta tree
  | OtherObject ObjectMeta

fun GetObjectMeta :: "BaseCustomObject \<Rightarrow> ObjectMeta" where
  "GetObjectMeta (CustomObject m sp st) = m"
| "GetObjectMeta (Unstructured m t) = m"
| "GetObjectMeta (OtherObject m) = m"

fun SetObjectMeta :: "BaseCustomObject \<Rightarrow> ObjectMeta \<Rightarrow> BaseCustomObject" where
  "SetObjectMeta (CustomObject m sp st) m' = CustomObject m' sp st"
| "SetObjectMeta (Unstructured m t) m' = Unstructured m' t"
| "SetObjectMeta (OtherObject m) m' = OtherObject m'"

definition GetFinalizers :: "BaseCustomObject \<Rightarrow> string list" where
  "GetFinalizers obj = Finalizers (GetObjectMeta obj)"

definition SetFinalizers :: "BaseCustomObject \<Rightarrow> string list \<Rightarrow> BaseCustomObject" where
  "SetFinalizers obj fs = SetObjectMeta obj ((GetObjectMeta obj)\<lparr>Finalizers := fs\<rparr>)"

definition GetLabels :: "BaseCustomObject \<Rightarrow> (string \<times> string) list option" where
  "GetLabels obj = Labels (GetObjectMeta obj)"

definition SetLabels :: "BaseCustomObject \<Rightarrow> (string \<times> string) list \<Rightarrow> BaseCustomObject" where
  "SetLabels obj ls = SetObjectMeta obj ((GetObjectMeta obj)\<lparr>Labels := Some ls\<rparr>)"

text \<open>\<open>(*metav1.Time).IsZero\<close>: a nil pointer or the zero time.\<close>

definition IsZero :: "nat option \<Rightarrow> bool" where
  "IsZero t = (case t of None \<Rightarrow> True | Some n \<Rightarrow> n = 0)"

definition GetDeletionTimestamp :: "BaseCustomObject \<Rightarrow> nat option" where
  "GetDeletionTimestamp obj = DeletionTimestamp (GetObjectMeta obj)"

text \<open>\<open>client.ObjectKeyFromObject(obj).String()\<close> and \<open>req.String()\<close>.\<close>

type_synonym Request = "string \<times> string"

definition NamespacedName_String :: "Request \<Rightarrow> string" where
  "NamespacedName_String req = fst req @ ''/'' @ snd req"

definition ObjectKeyFromObject :: "BaseCustomObject \<Rightarrow> Request" where
  "ObjectKeyFromObject obj = (Namespace (GetObjectMeta obj), Name (GetObjectMeta obj))"

definition getTypeError :: "string \<Rightarrow> error" where
  "getTypeError namespacedName =
     TypeError (''invalid custom resource object type for reconciliation '' @ namespacedName)"

text \<open>\<open>controllerutil.AddFinalizer\<close> and \<open>controllerutil.RemoveFinalizer\<close>: the
  changed object and whether the finalizers changed.\<close>

definition AddFinalizer :: "BaseCustomObject \<Rightarrow> string \<Rightarrow> BaseCustomObject \<times> bool" where
  "AddFinalizer obj finalizer =
     (if finalizer \<in> set (GetFinalizers obj) then (obj, False)
      else (SetFinalizers obj (GetFinalizers obj @ [finalizer]), True))"

definition RemoveFinalizer :: "BaseCustomObject \<Rightarrow> string \<Rightarrow> BaseCustomObject \<times> bool" where
  "RemoveFinalizer obj finalizer =
     (let f = GetFinalizers obj; kept = filter (\<lambda>e. e \<noteq> finalizer) f
      in (SetFinalizers obj kept, length f \<noteq> length kept))"

text \<open>\<open>client.IgnoreNotFound\<close>.\<close>

definition IgnoreNotFound :: "error \<Rightarrow> error option" where
  "IgnoreNotFound err = (if err = NotFound then None else Some err)"

text \<open>\<open>unstructured.NestedMap\<close> and \<open>unstructured.SetNestedMap\<close> on a path of one
  field. A missing field gives the nil map (read like the empty one) and no error; a
  value that is not a map gives an accessor error. With one field there is no parent
  to walk through, so setting cannot fail.\<close>

definition NestedMap :: "tree \<Rightarrow> string \<Rightarrow> error + tree" where
  "NestedMap obj field =
     (case map_of obj field of
        None \<Rightarrow> Inr []
      | Some (JMap m) \<Rightarrow> Inr m
      | Some _ \<Rightarrow> Inl (Failure (field @ '' accessor error'')))"

definition SetNestedMap :: "tree \<Rightarrow> tree \<Rightarrow> string \<Rightarrow> error + tree" where
  "SetNestedMap obj val field = Inr (AList.update field (JMap val) obj)"

section \<open>The installer's context\<close>

text \<open>\<open>manifest.InstallInfo\<close> as \<open>prepareInstallInfo\<close> fills it: the chart
  information, the base resource (a pointer to an unstructured object) and the flag
  \<open>CheckReadyStates\<close>. The context, the cluster handles and the constant readiness
  check are the same in every pass and are left out.\<close>

record InstallInfo =
  ChartInfo_ChartPath :: string
  ChartInfo_ReleaseName :: string
  BaseResource :: BaseCustomObject
  CheckReadyStates :: bool

section \<open>Collaborators\<close>

text \<open>
  What a pass receives from outside the reconciler: the cluster client (\<open>Get\<close>,
  \<open>Update\<close>, \<open>Status().Update\<close>), the flag parser \<open>strvals.ParseInto\<close>, the
  constructor \<open>manifest.NewOperations\<close> with the operations \<open>Install\<close> and
  \<open>Uninstall\<close> of the client it returns, and
  \<open>runtime.DefaultUnstructuredConverter\<close> where it is given a pointer (reading a
  spec or a status out of a tree, converting a typed object). Each is a function of
  its arguments,
  fixed for the pass. \<open>Get\<close> fills the typed object instance with the persisted
  metadata, spec and status of the key.
\<close>

record Env =
  client_Get :: "Request \<Rightarrow> error + (ObjectMeta \<times> CustomObjectSpec \<times> CustomObjectStatus)"
  client_Update :: "BaseCustomObject \<Rightarrow> error option"
  client_Status_Update :: "BaseCustomObject \<Rightarrow> error option"
  strvals_ParseInto :: "string \<Rightarrow> error + tree"
  manifest_NewOperations :: "tree \<Rightarrow> error option"
  ops_Install :: "InstallInfo \<Rightarrow> bool \<times> error option"
  ops_Uninstall :: "InstallInfo \<Rightarrow> bool \<times> error option"
  FromUnstructured_status :: "tree \<Rightarrow> error + CustomObjectStatus"
  FromUnstructured_spec :: "tree \<Rightarrow> error + CustomObjectSpec"
  ToUnstructured_object :: "BaseCustomObject \<Rightarrow> error + tree"

text \<open>What a pass does to the outside, in order.\<close>

datatype action =
    ActUpdate BaseCustomObject
  | ActStatusUpdate BaseCustomObject
  | ActInstall InstallInfo
  | ActUninstall InstallInfo

text \<open>A Go call returns, or panics.\<close>

datatype 'a outcome = Returned 'a | Panicked

section \<open>The reconciler\<close>

record manifestOptions =
  force :: bool
  verify :: bool
  resourceLabels :: "(string \<times> string) list"

record ManifestReconciler =
  prototype :: BaseCustomObject
  options :: manifestOptions

record Result =
  Requeue :: bool
  RequeueAfter :: nat

definition ctrl_Result_empty :: Result where
  "ctrl_Result_empty = \<lparr>Requeue = False, RequeueAfter = 0\<rparr>"

subsection \<open>Object accessors\<close>

text \<open>\<open>runtime.DefaultUnstructuredConverter.ToUnstructured\<close> accepts an
  \<open>Unstructured\<close> or a non-nil pointer and refuses every other argument.
  \<open>setStatusForObjectInstance\<close> hands it the status struct itself
  (\<open>ToUnstructured(status)\<close>, a value and not a pointer), so there the converter
  answers with its error, whatever the status.\<close>

definition ToUnstructured_byValue :: "CustomObjectStatus \<Rightarrow> error + tree" where
  "ToUnstructured_byValue status =
     Inl (Failure ''ToUnstructured requires a non-nil pointer to an object'')"

fun setStatusForObjectInstance ::
  "BaseCustomObject \<Rightarrow> CustomObjectStatus \<Rightarrow> error + BaseCustomObject" where
  "setStatusForObjectInstance (CustomObject m sp st) status = Inr (CustomObject m sp status)"
| "setStatusForObjectInstance (Unstructured m t) status =
     (case ToUnstructured_byValue status of
        Inl err \<Rightarrow> Inl (Errorf ''unable to convert unstructured to addonStatus'' err)
      | Inr unstructStatus \<Rightarrow>
          (case SetNestedMap t unstructStatus ''status'' of
             Inl err \<Rightarrow> Inl (Errorf ''unable to set status in unstructured'' err)
           | Inr t' \<Rightarrow> Inr (Unstructured m t')))"
| "setStatusForObjectInstance (OtherObject m) status =
     Inl (getTypeError (NamespacedName_String (ObjectKeyFromObject (OtherObject m))))"

fun getStatusFromObjectInstance :: "Env \<Rightarrow> BaseCustomObject \<Rightarrow> error + CustomObjectStatus" where
  "getStatusFromObjectInstance env (CustomObject m sp st) = Inr st"
| "getStatusFromObjectInstance env (Unstructured m t) =
     (case NestedMap t ''status'' of
        Inl err \<Rightarrow> Inl (Errorf ''unable to get status from unstuctured'' err)
      | Inr unstructStatus \<Rightarrow> FromUnstructured_status env unstructStatus)"
| "getStatusFromObjectInstance env (OtherObject m) =
     Inl (getTypeError (NamespacedName_String (ObjectKeyFromObject (OtherObject m))))"

fun getSpecFromObjectInstance :: "Env \<Rightarrow> BaseCustomObject \<Rightarrow> error + CustomObjectSpec" where
  "getSpecFromObjectInstance env (CustomObject m sp st) = Inr sp"
| "getSpecFromObjectInstance env (Unstructured m t) =
     (case NestedMap t ''spec'' of
        Inl err \<Rightarrow> Inl (Errorf ''unable to get spec from unstuctured'' err)
      | Inr unstructSpec \<Rightarrow> FromUnstructured_spec env unstructSpec)"
| "getSpecFromObjectInstance env (OtherObject m) =
     Inl (getTypeError (NamespacedName_String (ObjectKeyFromObject (OtherObject m))))"

subsection \<open>Building the installer's context\<close>

text \<open>\<open>prepareInstallInfo\<close> declares \<open>var unstructuredObj *unstructured.Unstructured\<close>,
  a nil pointer. For a \<open>types.CustomObject\<close> it converts the object and assigns the
  result to \<open>unstructuredObj.Object\<close>: a store through the nil pointer, which panics
  whatever the converter returned. For an unstructured object the pointer is set to
  the object itself.\<close>

fun prepareInstallInfo ::
  "Env \<Rightarrow> BaseCustomObject \<Rightarrow> string \<Rightarrow> string \<Rightarrow> (error + InstallInfo) outcome" where
  "prepareInstallInfo env (CustomObject m sp st) chartPath releaseName =
     (case ToUnstructured_object env (CustomObject m sp st) of
        Inl err \<Rightarrow> Panicked
      | Inr converted \<Rightarrow> Panicked)"
| "prepareInstallInfo env (Unstructured m t) chartPath releaseName =
     Returned (Inr \<lparr>ChartInfo_ChartPath = chartPath, ChartInfo_ReleaseName = releaseName,
                    BaseResource = Unstructured m t, CheckReadyStates = True\<rparr>)"
| "prepareInstallInfo env (OtherObject m) chartPath releaseName =
     Returned (Inl (getTypeError (NamespacedName_String (ObjectKeyFromObject (OtherObject m)))))"

text \<open>\<open>getManifestClient\<close>: the flags are parsed, then the client is built; either
  step may fail. The client's operations are those of the environment.\<close>

definition getManifestClient :: "Env \<Rightarrow> string \<Rightarrow> error + unit" where
  "getManifestClient env configString =
     (case strvals_ParseInto env configString of
        Inl err \<Rightarrow> Inl err
      | Inr config \<Rightarrow>
          (case manifest_NewOperations env config of
             Some err \<Rightarrow> Inl err
           | None \<Rightarrow> Inr ()))"

subsection \<open>State handlers\<close>

text \<open>Every handler ends a status change with the same three statements: the new
  status is written into the object instance (an error of the accessor is returned),
  and the result of \<open>r.nativeClient.Status().Update\<close> is returned.\<close>

definition setStatusAndUpdate ::
  "Env \<Rightarrow> BaseCustomObject \<Rightarrow> CustomObjectStatus \<Rightarrow> action list \<times> error option outcome" where
  "setStatusAndUpdate env objectInstance status =
     (case setStatusForObjectInstance objectInstance status of
        Inl err \<Rightarrow> ([], Returned (Some err))
      | Inr obj' \<Rightarrow> ([ActStatusUpdate obj'], Returned (client_Status_Update env obj')))"

text \<open>\<open>HandleInitialState\<close> is the one handler that writes to the reconciler: pending
  resource labels are copied into the object's label map (a store into a nil map
  panics), the object is updated and the pending labels are cleared. Only without
  pending labels is the state set to \<open>Processing\<close>.\<close>

definition HandleInitialState ::
  "ManifestReconciler \<Rightarrow> Env \<Rightarrow> BaseCustomObject \<Rightarrow>
     ManifestReconciler \<times> action list \<times> error option outcome" where
  "HandleInitialState r env objectInstance =
     (case getStatusFromObjectInstance env objectInstance of
        Inl err \<Rightarrow> (r, [], Returned (Some err))
      | Inr status \<Rightarrow>
          if length (resourceLabels (options r)) > 0 then
            (case GetLabels objectInstance of
               None \<Rightarrow> (r, [], Panicked)
             | Some labels \<Rightarrow>
                 (let labels' = fold (\<lambda>(key, val). AList.update key val)
                                     (resourceLabels (options r)) labels;
                      obj' = SetLabels objectInstance labels';
                      r' = r\<lparr>options := (options r)\<lparr>resourceLabels := []\<rparr>\<rparr>
                  in (r', [ActUpdate obj'], Returned (client_Update env obj'))))
          else
            (let (acts, res) = setStatusAndUpdate env objectInstance
                                 (status\<lparr>State := CustomStateProcessing\<rparr>)
             in (r, acts, res)))"

definition HandleProcessingState ::
  "ManifestReconciler \<Rightarrow> Env \<Rightarrow> BaseCustomObject \<Rightarrow> action list \<times> error option outcome" where
  "HandleProcessingState r env objectInstance =
     (case getSpecFromObjectInstance env objectInstance of
        Inl err \<Rightarrow> ([], Returned (Some err))
      | Inr spec \<Rightarrow>
     (case getStatusFromObjectInstance env objectInstance of
        Inl err \<Rightarrow> ([], Returned (Some err))
      | Inr status \<Rightarrow>
     (case getManifestClient env (ChartFlags spec) of
        Inl err \<Rightarrow> setStatusAndUpdate env objectInstance (status\<lparr>State := CustomStateError\<rparr>)
      | Inr manifestClient \<Rightarrow>
     (case prepareInstallInfo env objectInstance (ChartPath spec) (ReleaseName spec) of
        Panicked \<Rightarrow> ([], Panicked)
      | Returned (Inl err) \<Rightarrow> ([], Returned (Some err))
      | Returned (Inr installInfo) \<Rightarrow>
     (case ops_Install env installInfo of
        (ready, Some err) \<Rightarrow>
          (let (acts, res) = setStatusAndUpdate env objectInstance
                               (status\<lparr>State := CustomStateError\<rparr>)
           in (ActInstall installInfo # acts, res))
      | (ready, None) \<Rightarrow>
          if ready then
            (let (acts, res) = setStatusAndUpdate env objectInstance
                                 (status\<lparr>State := CustomStateReady\<rparr>)
             in (ActInstall installInfo # acts, res))
          else ([ActInstall installInfo], Returned None))))))"

definition HandleDeletingState ::
  "ManifestReconciler \<Rightarrow> Env \<Rightarrow> BaseCustomObject \<Rightarrow> action list \<times> error option outcome" where
  "HandleDeletingState r env objectInstance =
     (case getSpecFromObjectInstance env objectInstance of
        Inl err \<Rightarrow> ([], Returned (Some err))
      | Inr spec \<Rightarrow>
     (case getStatusFromObjectInstance env objectInstance of
        Inl err \<Rightarrow> ([], Returned (Some err))
      | Inr status \<Rightarrow>
     (case getManifestClient env (ChartFlags spec) of
        Inl err \<Rightarrow> setStatusAndUpdate env objectInstance (status\<lparr>State := CustomStateError\<rparr>)
      | Inr manifestClient \<Rightarrow>
     (case prepareInstallInfo env objectInstance (ChartPath spec) (ReleaseName spec) of
        Panicked \<Rightarrow> ([], Panicked)
      | Returned (Inl err) \<Rightarrow> ([], Returned (Some err))
      | Returned (Inr installInfo) \<Rightarrow>
     (case ops_Uninstall env installInfo of
        (readyToBeDeleted, Some err) \<Rightarrow>
          (let (acts, res) = setStatusAndUpdate env objectInstance
                               (status\<lparr>State := CustomStateError\<rparr>)
           in (ActUninstall installInfo # acts, res))
      | (readyToBeDeleted, None) \<Rightarrow>
          if readyToBeDeleted then
            (case RemoveFinalizer objectInstance deletionFinalizer of
               (obj', True) \<Rightarrow>
                 ([ActUninstall installInfo, ActUpdate obj'], Returned (client_Update env obj'))
             | (obj', False) \<Rightarrow> ([ActUninstall installInfo], Returned None))
          else ([ActUninstall installInfo], Returned None))))))"

definition HandleErrorState ::
  "ManifestReconciler \<Rightarrow> Env \<Rightarrow> BaseCustomObject \<Rightarrow> action list \<times> error option outcome" where
  "HandleErrorState r env objectInstance =
     (case getStatusFromObjectInstance env objectInstance of
        Inl err \<Rightarrow> ([], Returned (Some err))
      | Inr status \<Rightarrow>
          setStatusAndUpdate env objectInstance (status\<lparr>State := CustomStateProcessing\<rparr>))"

definition HandleReadyState ::
  "ManifestReconciler \<Rightarrow> Env \<Rightarrow> BaseCustomObject \<Rightarrow> action list \<times> error option outcome" where
  "HandleReadyState r env objectInstance = ([], Returned None)"

subsection \<open>One reconciliation pass\<close>

text \<open>The outcome of a pass: the reconciler afterwards, the actions taken in order,
  and what \<open>Reconcile\<close> returned.\<close>

record Pass =
  engine :: ManifestReconciler
  actions :: "action list"
  returned :: "(Result \<times> error option) outcome"

definition withResult :: "error option outcome \<Rightarrow> (Result \<times> error option) outcome" where
  "withResult res = (case res of Panicked \<Rightarrow> Panicked | Returned err \<Rightarrow> Returned (ctrl_Result_empty, err))"

text \<open>\<open>Reconcile\<close> from line 83 on, for the object instance that \<open>Get\<close> has filled:
  the deletion check, the finalizer, then the dispatch on the state read at the top.\<close>

definition reconcileObject :: "ManifestReconciler \<Rightarrow> Env \<Rightarrow> BaseCustomObject \<Rightarrow> Pass" where
  "reconcileObject r env objectInstance =
     (case getStatusFromObjectInstance env objectInstance of
        Inl err \<Rightarrow> \<lparr>engine = r, actions = [], returned = Returned (ctrl_Result_empty, Some err)\<rparr>
      | Inr status \<Rightarrow>
          if \<not> IsZero (GetDeletionTimestamp objectInstance) \<and> State status \<noteq> CustomStateDeleting then
            (case setStatusForObjectInstance objectInstance (status\<lparr>State := CustomStateDeleting\<rparr>) of
               Inl err \<Rightarrow> \<lparr>engine = r, actions = [], returned = Returned (ctrl_Result_empty, Some err)\<rparr>
             | Inr obj' \<Rightarrow>
                 \<lparr>engine = r, actions = [ActStatusUpdate obj'],
                  returned = Returned (ctrl_Result_empty, client_Status_Update env obj')\<rparr>)
          else
            (case AddFinalizer objectInstance deletionFinalizer of
               (obj', True) \<Rightarrow>
                 \<lparr>engine = r, actions = [ActUpdate obj'],
                  returned = Returned (ctrl_Result_empty, client_Update env obj')\<rparr>
             | (obj', False) \<Rightarrow>
                 if State status = [] then
                   (case HandleInitialState r env obj' of
                      (r', acts, res) \<Rightarrow> \<lparr>engine = r', actions = acts, returned = withResult res\<rparr>)
                 else if State status = CustomStateProcessing then
                   (case HandleProcessingState r env obj' of
                      (acts, res) \<Rightarrow> \<lparr>engine = r, actions = acts, returned = withResult res\<rparr>)
                 else if State status = CustomStateDeleting then
                   (case HandleDeletingState r env obj' of
                      (acts, res) \<Rightarrow> \<lparr>engine = r, actions = acts, returned = withResult res\<rparr>)
                 else if State status = CustomStateError then
                   (case HandleErrorState r env obj' of
                      (acts, res) \<Rightarrow> \<lparr>engine = r, actions = acts, returned = withResult res\<rparr>)
                 else if State status = CustomStateReady then
                   (case HandleReadyState r env obj' of
                      (acts, res) \<Rightarrow> \<lparr>engine = r, actions = acts, returned = withResult res\<rparr>)
                 else \<lparr>engine = r, actions = [], returned = Returned (ctrl_Result_empty, None)\<rparr>))"

text \<open>\<open>Reconcile\<close>: the copy of the prototype must be a \<open>types.CustomObject\<close>, else
  the type error is returned at once; an error of \<open>Get\<close> ends the pass, a not-found
  error as success.\<close>

definition Reconcile :: "ManifestReconciler \<Rightarrow> Env \<Rightarrow> Request \<Rightarrow> Pass" where
  "Reconcile r env req =
     (case prototype r of
        CustomObject pm psp pst \<Rightarrow>
          (case client_Get env req of
             Inl err \<Rightarrow>
               \<lparr>engine = r, actions = [], returned = Returned (ctrl_Result_empty, IgnoreNotFound err)\<rparr>
           | Inr (m, sp, st) \<Rightarrow> reconcileObject r env (CustomObject m sp st))
      | _ \<Rightarrow>
          \<lparr>engine = r, actions = [],
           returned = Returned (ctrl_Result_empty, Some (getTypeError (NamespacedName_String req)))\<rparr>)"

section \<open>Notions used by the properties\<close>

fun isInstall :: "action \<Rightarrow> bool" where
  "isInstall (ActInstall info) = True"
| "isInstall a = False"


text \<open>The objects a pass writes to the cluster, by \<open>Update\<close> or \<open>Status().Update\<close>.\<close>

fun writtenObject :: "action \<Rightarrow> BaseCustomObject option" where
  "writtenObject (ActUpdate obj) = Some obj"
| "writtenObject (ActStatusUpdate obj) = Some obj"
| "writtenObject a = None"

text \<open>The status of a typed object; none for any other representation.\<close>

fun typedStatus :: "BaseCustomObject \<Rightarrow> CustomObjectStatus option" where
  "typedStatus (CustomObject m sp st) = Some st"
| "typedStatus obj = None"

text \<open>A pass releases the finalizer when it sends an \<open>Update\<close> of an object without
  it; the installer confirms the teardown when an \<open>Uninstall\<close> call of the pass
  returns \<open>removed = true\<close> and no error.\<close>

definition finalizerReleased :: "action list \<Rightarrow> bool" where
  "finalizerReleased acts =
     (\<exists>a \<in> set acts. case a of
          ActUpdate obj \<Rightarrow> deletionFinalizer \<notin> set (GetFinalizers obj)
        | _ \<Rightarrow> False)"

definition uninstallConfirmed :: "Env \<Rightarrow> action list \<Rightarrow> bool" where
  "uninstallConfirmed env acts =
     (\<exists>a \<in> set acts. case a of
          ActUninstall info \<Rightarrow> ops_Uninstall env info = (True, None)
        | _ \<Rightarrow> False)"

section \<open>Example resources and collaborators\<close>

definition exMeta :: "nat option \<Rightarrow> string list \<Rightarrow> ObjectMeta" where
  "exMeta ts fs =
     \<lparr>Namespace = ''default'', Name = ''sample'', DeletionTimestamp = ts,
      Finalizers = fs, Labels = Some []\<rparr>"

definition exSpec :: CustomObjectSpec where
  "exSpec = \<lparr>ChartPath = ''charts/nginx'', ReleaseName = ''nginx'', ChartFlags = ''namespace=default''\<rparr>"

definition exStatus :: "CustomState \<Rightarrow> CustomObjectStatus" where
  "exStatus s = \<lparr>State = s, Conditions = []\<rparr>"

definition exRequest :: Request where
  "exRequest = (''default'', ''sample'')"

text \<open>The structs and their attribute trees, by the JSON names of the fields; an
  absent field is the zero value.\<close>

definition stringField :: "tree \<Rightarrow> string \<Rightarrow> error + string" where
  "stringField t field =
     (case map_of t field of
        None \<Rightarrow> Inr []
      | Some (JStr s) \<Rightarrow> Inr s
      | Some _ \<Rightarrow> Inl (Failure (field @ '' is not a string'')))"

definition conditionToTree :: "Condition \<Rightarrow> jv" where
  "conditionToTree c =
     JMap [(''type'', JStr (condType c)),
           (''lastTransitionTime'', JNum (int (lastTransitionTime c))),
           (''installInfo'', JStr (installInfoSnapshot c))]"

fun conditionFromTree :: "jv \<Rightarrow> error + Condition" where
  "conditionFromTree (JMap t) =
     (case (map_of t ''type'', map_of t ''lastTransitionTime'', map_of t ''installInfo'') of
        (Some (JStr ty), Some (JNum n), Some (JStr i)) \<Rightarrow>
          Inr \<lparr>condType = ty, lastTransitionTime = nat n, installInfoSnapshot = i\<rparr>
      | _ \<Rightarrow> Inl (Failure ''malformed condition''))"
| "conditionFromTree v = Inl (Failure ''malformed condition'')"

fun conditionsFromTree :: "jv list \<Rightarrow> error + Condition list" where
  "conditionsFromTree [] = Inr []"
| "conditionsFromTree (v # vs) =
     (case conditionFromTree v of
        Inl err \<Rightarrow> Inl err
      | Inr c \<Rightarrow> (case conditionsFromTree vs of Inl err \<Rightarrow> Inl err | Inr cs \<Rightarrow> Inr (c # cs)))"

definition statusToTree :: "CustomObjectStatus \<Rightarrow> tree" where
  "statusToTree st =
     (if State st = [] then [] else [(''state'', JStr (State st))]) @
     (if Conditions st = [] then []
      else [(''conditions'', JList (map conditionToTree (Conditions st)))])"

definition statusFromTree :: "tree \<Rightarrow> error + CustomObjectStatus" where
  "statusFromTree t =
     (case stringField t ''state'' of
        Inl err \<Rightarrow> Inl err
      | Inr s \<Rightarrow>
          (case map_of t ''conditions'' of
             None \<Rightarrow> Inr \<lparr>State = s, Conditions = []\<rparr>
           | Some (JList vs) \<Rightarrow>
               (case conditionsFromTree vs of
                  Inl err \<Rightarrow> Inl err
                | Inr cs \<Rightarrow> Inr \<lparr>State = s, Conditions = cs\<rparr>)
           | Some _ \<Rightarrow> Inl (Failure ''conditions is not a list'')))"

definition specToTree :: "CustomObjectSpec \<Rightarrow> tree" where
  "specToTree sp =
     [(''chartPath'', JStr (ChartPath sp)), (''releaseName'', JStr (ReleaseName sp)),
      (''chartFlags'', JStr (ChartFlags sp))]"

definition specFromTree :: "tree \<Rightarrow> error + CustomObjectSpec" where
  "specFromTree t =
     (case stringField t ''chartPath'' of
        Inl err \<Rightarrow> Inl err
      | Inr cp \<Rightarrow>
     (case stringField t ''releaseName'' of
        Inl err \<Rightarrow> Inl err
      | Inr rn \<Rightarrow>
     (case stringField t ''chartFlags'' of
        Inl err \<Rightarrow> Inl err
      | Inr cf \<Rightarrow> Inr \<lparr>ChartPath = cp, ReleaseName = rn, ChartFlags = cf\<rparr>)))"

text \<open>The attribute tree of a whole resource: its spec and its status under the keys
  \<open>spec\<close> and \<open>status\<close>.\<close>

definition resourceTree :: "CustomObjectSpec \<Rightarrow> CustomObjectStatus \<Rightarrow> tree" where
  "resourceTree sp st =
     [(''spec'', JMap (specToTree sp)),
      (''status'', JMap (statusToTree st))]"

fun objectToTree :: "BaseCustomObject \<Rightarrow> error + tree" where
  "objectToTree (CustomObject m sp st) = Inr (resourceTree sp st)"
| "objectToTree (Unstructured m t) = Inr t"
| "objectToTree (OtherObject m) = Inl (Failure ''no conversion'')"

text \<open>\<open>strvals.ParseInto\<close> on the flags of the examples: the empty string sets
  nothing, a lone key (no \<open>=\<close>, \<open>[\<close>, \<open>,\<close> or \<open>.\<close> after it) is refused for
  having no value, and \<open>key=value\<close> sets the key to the value, read as a
  string.\<close>

definition exParseInto :: "string \<Rightarrow> error + tree" where
  "exParseInto flags =
     (if flags = [] then Inr []
      else if list_all (\<lambda>c. c \<notin> set ''=[,.'') flags
        then Inl (Failure (''key '' @ flags @ '' has no value''))
      else Inr [(takeWhile (\<lambda>c. c \<noteq> CHR ''='') flags,
                 JStr (drop 1 (dropWhile (\<lambda>c. c \<noteq> CHR ''='') flags)))])"

text \<open>The example spec with flags that do not parse.\<close>

definition exBadSpec :: CustomObjectSpec where
  "exBadSpec = \<lparr>ChartPath = ''charts/nginx'', ReleaseName = ''nginx'', ChartFlags = ''namespace''\<rparr>"

text \<open>Collaborators: the cluster client accepts every write and the manifest client
  is always built once the flags have parsed; what \<open>Get\<close> finds and what the
  installer answers are parameters.\<close>

definition exEnv ::
  "(error + (ObjectMeta \<times> CustomObjectSpec \<times> CustomObjectStatus)) \<Rightarrow>
     (bool \<times> error option) \<Rightarrow> (bool \<times> error option) \<Rightarrow> Env" where
  "exEnv found installed uninstalled =
     \<lparr>client_Get = (\<lambda>req. found),
      client_Update = (\<lambda>obj. None),
      client_Status_Update = (\<lambda>obj. None),
      strvals_ParseInto = exParseInto,
      manifest_NewOperations = (\<lambda>config. None),
      ops_Install = (\<lambda>info. installed),
      ops_Uninstall = (\<lambda>info. uninstalled),
      FromUnstructured_status = statusFromTree,
      FromUnstructured_spec = specFromTree,
      ToUnstructured_object = objectToTree\<rparr>"

definition exReconciler :: "BaseCustomObject \<Rightarrow> (string \<times> string) list \<Rightarrow> ManifestReconciler" where
  "exReconciler proto pending =
     \<lparr>prototype = proto,
      options = \<lparr>force = False, verify = False, resourceLabels = pending\<rparr>\<rparr>"

text \<open>The two representations of the example resource.\<close>

definition exTyped :: "nat option \<Rightarrow> string list \<Rightarrow> CustomState \<Rightarrow> BaseCustomObject" where
  "exTyped ts fs s = CustomObject (exMeta ts fs) exSpec (exStatus s)"

definition exGeneric :: "nat option \<Rightarrow> string list \<Rightarrow> CustomState \<Rightarrow> BaseCustomObject" where
  "exGeneric ts fs s = Unstructured (exMeta ts fs) (resourceTree exSpec (exStatus s))"

section \<open>Properties of a reconciliation pass\<close>

lemmas handler_defs = HandleInitialState_def HandleProcessingState_def HandleDeletingState_def
  HandleErrorState_def HandleReadyState_def setStatusAndUpdate_def

lemmas ex_defs = exMeta_def exSpec_def exBadSpec_def exStatus_def exRequest_def exEnv_def
  exParseInto_def exReconciler_def
  exTyped_def exGeneric_def

text \<open>
  C1. A pass that loads a resource without the deletion finalizer never calls
  \<open>Install\<close>; when the resource has no deletion intent either, the whole pass is one
  action: the \<open>Update\<close> of the resource with the finalizer appended, whose result
  \<open>Reconcile\<close> returns. So an install action can only belong to a pass that found the
  finalizer in place.
\<close>

theorem finalizer_added_before_any_install:
  assumes "prototype r = CustomObject pm psp pst"
      and "client_Get env req = Inr (m, sp, st)"
      and "deletionFinalizer \<notin> set (Finalizers m)"
  shows "(IsZero (DeletionTimestamp m) \<longrightarrow>
            Reconcile r env req =
              \<lparr>engine = r,
               actions = [ActUpdate (CustomObject (m\<lparr>Finalizers := Finalizers m @ [deletionFinalizer]\<rparr>) sp st)],
               returned = Returned (ctrl_Result_empty,
                 client_Update env (CustomObject (m\<lparr>Finalizers := Finalizers m @ [deletionFinalizer]\<rparr>) sp st))\<rparr>)
         \<and> (\<forall>a \<in> set (actions (Reconcile r env req)). \<not> isInstall a)"
  using assms
  by (simp add: Reconcile_def reconcileObject_def AddFinalizer_def GetFinalizers_def
      SetFinalizers_def GetDeletionTimestamp_def)

theorem finalizer_added_before_any_install_witness:
  "deletionFinalizer \<notin> set (Finalizers (exMeta None []))
   \<and> IsZero (DeletionTimestamp (exMeta None []))
   \<and> actions (Reconcile (exReconciler (exTyped None [] []) [])
        (exEnv (Inr (exMeta None [], exSpec, exStatus [])) (True, None) (True, None))
        exRequest) = [ActUpdate (exTyped None [deletionFinalizer] [])]
   \<and> \<not> isInstall (ActUpdate (exTyped None [deletionFinalizer] []))"
proof -
  have h1: "prototype (exReconciler (exTyped None [] []) [])
              = CustomObject (exMeta None []) exSpec (exStatus [])"
    by (simp add: exReconciler_def exTyped_def)
  have h2: "client_Get (exEnv (Inr (exMeta None [], exSpec, exStatus [])) (True, None) (True, None))
              exRequest = Inr (exMeta None [], exSpec, exStatus [])"
    by (simp add: exEnv_def)
  have h3: "deletionFinalizer \<notin> set (Finalizers (exMeta None []))"
    by (simp add: exMeta_def)
  have h4: "IsZero (DeletionTimestamp (exMeta None []))"
    by (simp add: exMeta_def IsZero_def)
  show ?thesis
    using finalizer_added_before_any_install [OF h1 h2 h3] h3 h4
    by (simp add: exTyped_def exMeta_def)
qed

text \<open>
  C2. A pass that loads a resource with deletion intent whose state is not
  \<open>Deleting\<close> writes the state \<open>Deleting\<close> into the status, sends that status update
  and returns its result. It is the only action of the pass: no handler is
  dispatched, so a resource in \<open>Processing\<close> goes to \<open>Deleting\<close> and cannot reach
  \<open>Ready\<close> or \<open>Error\<close> through the processing handler in that pass.
\<close>

theorem deletion_preempts_dispatch:
  assumes "prototype r = CustomObject pm psp pst"
      and "client_Get env req = Inr (m, sp, st)"
      and "\<not> IsZero (DeletionTimestamp m)"
      and "State st \<noteq> CustomStateDeleting"
  shows "Reconcile r env req =
           \<lparr>engine = r,
            actions = [ActStatusUpdate (CustomObject m sp (st\<lparr>State := CustomStateDeleting\<rparr>))],
            returned = Returned (ctrl_Result_empty,
              client_Status_Update env (CustomObject m sp (st\<lparr>State := CustomStateDeleting\<rparr>)))\<rparr>"
  using assms
  by (simp add: Reconcile_def reconcileObject_def GetDeletionTimestamp_def)

theorem deletion_preempts_dispatch_witness:
  "\<not> IsZero (DeletionTimestamp (exMeta (Some 5) [deletionFinalizer]))
   \<and> State (exStatus CustomStateProcessing) \<noteq> CustomStateDeleting
   \<and> actions (Reconcile (exReconciler (exTyped None [] []) [])
        (exEnv (Inr (exMeta (Some 5) [deletionFinalizer], exSpec, exStatus CustomStateProcessing))
           (True, None) (True, None))
        exRequest) = [ActStatusUpdate (exTyped (Some 5) [deletionFinalizer] CustomStateDeleting)]"
proof -
  have h1: "prototype (exReconciler (exTyped None [] []) [])
              = CustomObject (exMeta None []) exSpec (exStatus [])"
    by (simp add: exReconciler_def exTyped_def)
  have h2: "client_Get (exEnv (Inr (exMeta (Some 5) [deletionFinalizer], exSpec, exStatus CustomStateProcessing))
                (True, None) (True, None)) exRequest
              = Inr (exMeta (Some 5) [deletionFinalizer], exSpec, exStatus CustomStateProcessing)"
    by (simp add: exEnv_def)
  have h3: "\<not> IsZero (DeletionTimestamp (exMeta (Some 5) [deletionFinalizer]))"
    by (simp add: exMeta_def IsZero_def)
  have h4: "State (exStatus CustomStateProcessing) \<noteq> CustomStateDeleting"
    by (simp add: exStatus_def CustomStateProcessing_def CustomStateDeleting_def)
  show ?thesis
    using deletion_preempts_dispatch [OF h1 h2 h3 h4] h3 h4
    by (simp add: exTyped_def exStatus_def)
qed

text \<open>
  C7. For a typed resource \<open>prepareInstallInfo\<close> does not return an
  \<open>InstallInfo\<close>: it panics, whatever the resource and whatever the converter
  answers.
\<close>

theorem prepareInstallInfo_typed_panics:
  "prepareInstallInfo env (CustomObject m sp st) chartPath releaseName = Panicked"
  by (simp split: sum.splits)

text \<open>
  C10. A pass that loads a resource with the finalizer present, no deletion intent
  and a state outside the five recognised ones takes no action, leaves the
  reconciler as it was and returns the empty result with no error.
\<close>

theorem unknown_state_is_noop:
  assumes "prototype r = CustomObject pm psp pst"
      and "client_Get env req = Inr (m, sp, st)"
      and "State st \<notin> {[], CustomStateProcessing, CustomStateDeleting, CustomStateError,
             CustomStateReady}"
      and "deletionFinalizer \<in> set (Finalizers m)"
      and "IsZero (DeletionTimestamp m)"
  shows "Reconcile r env req =
           \<lparr>engine = r, actions = [], returned = Returned (ctrl_Result_empty, None)\<rparr>"
  using assms
  by (simp add: Reconcile_def reconcileObject_def AddFinalizer_def GetFinalizers_def
      GetDeletionTimestamp_def)

theorem unknown_state_is_noop_witness:
  "State (exStatus ''Paused'') \<notin> {[], CustomStateProcessing, CustomStateDeleting,
       CustomStateError, CustomStateReady}
   \<and> deletionFinalizer \<in> set (Finalizers (exMeta None [deletionFinalizer]))
   \<and> IsZero (DeletionTimestamp (exMeta None [deletionFinalizer]))
   \<and> actions (Reconcile (exReconciler (exTyped None [] []) [])
        (exEnv (Inr (exMeta None [deletionFinalizer], exSpec, exStatus ''Paused''))
           (True, None) (True, None))
        exRequest) = []
   \<and> returned (Reconcile (exReconciler (exTyped None [] []) [])
        (exEnv (Inr (exMeta None [deletionFinalizer], exSpec, exStatus ''Paused''))
           (True, None) (True, None))
        exRequest) = Returned (\<lparr>Requeue = False, RequeueAfter = 0\<rparr>, None)"
proof -
  have h1: "prototype (exReconciler (exTyped None [] []) [])
              = CustomObject (exMeta None []) exSpec (exStatus [])"
    by (simp add: exReconciler_def exTyped_def)
  have h2: "client_Get (exEnv (Inr (exMeta None [deletionFinalizer], exSpec, exStatus ''Paused''))
                (True, None) (True, None)) exRequest
              = Inr (exMeta None [deletionFinalizer], exSpec, exStatus ''Paused'')"
    by (simp add: exEnv_def)
  have h3: "State (exStatus ''Paused'') \<notin> {[], CustomStateProcessing, CustomStateDeleting,
              CustomStateError, CustomStateReady}"
    by (simp add: exStatus_def CustomStateProcessing_def CustomStateDeleting_def
        CustomStateError_def CustomStateReady_def)
  have h4: "deletionFinalizer \<in> set (Finalizers (exMeta None [deletionFinalizer]))"
    by (simp add: exMeta_def)
  have h5: "IsZero (DeletionTimestamp (exMeta None [deletionFinalizer]))"
    by (simp add: exMeta_def IsZero_def)
  show ?thesis
    using unknown_state_is_noop [OF h1 h2 h3 h4 h5] h3 h4 h5
    by (simp add: ctrl_Result_empty_def)
qed

subsection \<open>Releasing the finalizer\<close>

lemma GetFinalizers_SetFinalizers [simp]: "GetFinalizers (SetFinalizers obj fs) = fs"
  by (cases obj) (simp_all add: GetFinalizers_def SetFinalizers_def)

lemma RemoveFinalizer_present:
  "finalizer \<in> set (GetFinalizers obj) \<Longrightarrow>
     RemoveFinalizer obj finalizer =
       (SetFinalizers obj (filter (\<lambda>e. e \<noteq> finalizer) (GetFinalizers obj)), True)"
  using length_filter_less [of finalizer "GetFinalizers obj" "\<lambda>e. e \<noteq> finalizer"]
  by (simp add: RemoveFinalizer_def Let_def)

text \<open>The deleting handler by itself, on an object that carries the finalizer: it
  sends an \<open>Update\<close> without the finalizer exactly when its \<open>Uninstall\<close> call
  returned \<open>removed = true\<close> and no error.\<close>

lemma HandleDeletingState_release:
  assumes "deletionFinalizer \<in> set (GetFinalizers obj)"
  shows "finalizerReleased (fst (HandleDeletingState r env obj))
           \<longleftrightarrow> uninstallConfirmed env (fst (HandleDeletingState r env obj))"
  using assms
  by (auto simp: HandleDeletingState_def setStatusAndUpdate_def finalizerReleased_def
      uninstallConfirmed_def RemoveFinalizer_present
      split: sum.splits outcome.splits prod.splits option.splits)



lemmas eval_defs = ex_defs handler_defs Reconcile_def reconcileObject_def getManifestClient_def
  NestedMap_def SetNestedMap_def statusFromTree_def statusToTree_def specFromTree_def
  specToTree_def resourceTree_def stringField_def AddFinalizer_def RemoveFinalizer_def
  GetFinalizers_def SetFinalizers_def GetLabels_def SetLabels_def GetDeletionTimestamp_def
  IsZero_def CustomStateProcessing_def CustomStateDeleting_def CustomStateError_def
  CustomStateReady_def deletionFinalizer_def withResult_def ctrl_Result_empty_def
  getTypeError_def NamespacedName_String_def ObjectKeyFromObject_def IgnoreNotFound_def
  finalizerReleased_def uninstallConfirmed_def ToUnstructured_byValue_def Let_def


subsection \<open>Leaving the state Deleting\<close>

lemma Reconcile_from_Deleting:
  assumes "prototype r = CustomObject pm psp pst"
      and "client_Get env req = Inr (m, sp, st)"
      and "State st = CustomStateDeleting"
  shows "\<forall>a \<in> set (actions (Reconcile r env req)). \<forall>obj. writtenObject a = Some obj \<longrightarrow>
           (\<exists>st'. typedStatus obj = Some st'
              \<and> (State st' = CustomStateDeleting \<or> State st' = CustomStateError))"
  using assms
  by (auto simp: Reconcile_def reconcileObject_def HandleDeletingState_def setStatusAndUpdate_def
      AddFinalizer_def SetFinalizers_def CustomStateDeleting_def CustomStateProcessing_def
      split: sum.splits outcome.splits prod.splits option.splits if_splits)

lemma Reconcile_Deleting_no_client:
  assumes "prototype r = CustomObject pm psp pst"
      and "client_Get env req = Inr (m, sp, st)"
      and "State st = CustomStateDeleting"
      and "deletionFinalizer \<in> set (Finalizers m)"
      and "getManifestClient env (ChartFlags sp) = Inl err"
  shows "Reconcile r env req =
           \<lparr>engine = r,
            actions = [ActStatusUpdate (CustomObject m sp (st\<lparr>State := CustomStateError\<rparr>))],
            returned = Returned (ctrl_Result_empty,
              client_Status_Update env (CustomObject m sp (st\<lparr>State := CustomStateError\<rparr>)))\<rparr>"
  using assms
  by (simp add: Reconcile_def reconcileObject_def HandleDeletingState_def setStatusAndUpdate_def
      AddFinalizer_def GetFinalizers_def withResult_def CustomStateDeleting_def
      CustomStateProcessing_def)

lemma Reconcile_Error_with_deletion_intent:
  assumes "prototype r = CustomObject pm psp pst"
      and "client_Get env req = Inr (m, sp, st)"
      and "State st = CustomStateError"
      and "\<not> IsZero (DeletionTimestamp m)"
  shows "actions (Reconcile r env req)
           = [ActStatusUpdate (CustomObject m sp (st\<lparr>State := CustomStateDeleting\<rparr>))]"
  using assms
  by (simp add: Reconcile_def reconcileObject_def GetDeletionTimestamp_def
      CustomStateError_def CustomStateDeleting_def)

text \<open>
  A resource in \<open>Deleting\<close> that carries the finalizer and whose chart flags are a
  lone key, which the parser refuses: the pass writes the state \<open>Error\<close>, a state
  other than \<open>Deleting\<close>.
\<close>

theorem deleting_state_reaches_error:
  "State (exStatus CustomStateDeleting) = CustomStateDeleting
   \<and> exParseInto (ChartFlags exBadSpec) = Inl (Failure ''key namespace has no value'')
   \<and> actions (Reconcile (exReconciler (exTyped None [] []) [])
        (exEnv (Inr (exMeta (Some 5) [deletionFinalizer], exBadSpec, exStatus CustomStateDeleting))
           (True, None) (True, None))
        exRequest)
       = [ActStatusUpdate (CustomObject (exMeta (Some 5) [deletionFinalizer]) exBadSpec
            (exStatus CustomStateError))]
   \<and> State (exStatus CustomStateError) = ''Error''
   \<and> CustomStateError \<noteq> CustomStateDeleting"
  by (simp add: eval_defs)

text \<open>
  C4 (amended). Every object that a pass writes for a loaded resource in \<open>Deleting\<close>
  has the state \<open>Deleting\<close> or \<open>Error\<close>. When the resource carries the finalizer
  and the manifest client cannot be built, the pass is exactly the status update that
  sets \<open>Error\<close>. A pass that then loads the resource in \<open>Error\<close> with deletion
  intent set is exactly the status update that sets \<open>Deleting\<close> again.
\<close>

theorem deleting_pass_writes_deleting_or_error:
  assumes "prototype r = CustomObject pm psp pst"
      and "client_Get env req = Inr (m, sp, st)"
      and "State st = CustomStateDeleting"
  shows "(\<forall>a \<in> set (actions (Reconcile r env req)). \<forall>obj. writtenObject a = Some obj \<longrightarrow>
            (\<exists>st'. typedStatus obj = Some st'
               \<and> (State st' = CustomStateDeleting \<or> State st' = CustomStateError)))
         \<and> (deletionFinalizer \<in> set (Finalizers m)
              \<and> getManifestClient env (ChartFlags sp) = Inl err \<longrightarrow>
            Reconcile r env req =
              \<lparr>engine = r,
               actions = [ActStatusUpdate (CustomObject m sp (st\<lparr>State := CustomStateError\<rparr>))],
               returned = Returned (ctrl_Result_empty,
                 client_Status_Update env (CustomObject m sp (st\<lparr>State := CustomStateError\<rparr>)))\<rparr>)
         \<and> (client_Get env' req = Inr (m, sp, st\<lparr>State := CustomStateError\<rparr>)
              \<and> \<not> IsZero (DeletionTimestamp m) \<longrightarrow>
            actions (Reconcile r env' req)
              = [ActStatusUpdate (CustomObject m sp (st\<lparr>State := CustomStateDeleting\<rparr>))])"
proof -
  have "State (st\<lparr>State := CustomStateError\<rparr>) = CustomStateError"
    by simp
  then have "client_Get env' req = Inr (m, sp, st\<lparr>State := CustomStateError\<rparr>)
               \<Longrightarrow> \<not> IsZero (DeletionTimestamp m)
               \<Longrightarrow> actions (Reconcile r env' req)
                     = [ActStatusUpdate (CustomObject m sp (st\<lparr>State := CustomStateDeleting\<rparr>))]"
    using Reconcile_Error_with_deletion_intent
            [OF assms(1), of env' req m sp "st\<lparr>State := CustomStateError\<rparr>"]
    by simp
  then show ?thesis
    using Reconcile_from_Deleting [OF assms] Reconcile_Deleting_no_client [OF assms]
    by blast
qed

theorem deleting_pass_writes_deleting_or_error_witness:
  "State (exStatus CustomStateDeleting) = CustomStateDeleting
   \<and> deletionFinalizer \<in> set (Finalizers (exMeta (Some 5) [deletionFinalizer]))
   \<and> getManifestClient
        (exEnv (Inr (exMeta (Some 5) [deletionFinalizer], exBadSpec, exStatus CustomStateDeleting))
           (True, None) (True, None))
        (ChartFlags exBadSpec) = Inl (Failure ''key namespace has no value'')
   \<and> \<not> IsZero (DeletionTimestamp (exMeta (Some 5) [deletionFinalizer]))
   \<and> actions (Reconcile (exReconciler (exTyped None [] []) [])
        (exEnv (Inr (exMeta (Some 5) [deletionFinalizer], exBadSpec, exStatus CustomStateDeleting))
           (True, None) (True, None))
        exRequest)
       = [ActStatusUpdate (CustomObject (exMeta (Some 5) [deletionFinalizer]) exBadSpec
            (exStatus CustomStateError))]
   \<and> (\<exists>st'. typedStatus (CustomObject (exMeta (Some 5) [deletionFinalizer]) exBadSpec
                 (exStatus CustomStateError)) = Some st'
         \<and> (State st' = CustomStateDeleting \<or> State st' = CustomStateError))
   \<and> actions (Reconcile (exReconciler (exTyped None [] []) [])
        (exEnv (Inr (exMeta (Some 5) [deletionFinalizer], exBadSpec, exStatus CustomStateError))
           (True, None) (True, None))
        exRequest)
       = [ActStatusUpdate (CustomObject (exMeta (Some 5) [deletionFinalizer]) exBadSpec
            (exStatus CustomStateDeleting))]"
proof -
  let ?r = "exReconciler (exTyped None [] []) []"
  let ?m = "exMeta (Some 5) [deletionFinalizer]"
  let ?env = "exEnv (Inr (?m, exBadSpec, exStatus CustomStateDeleting)) (True, None) (True, None)"
  let ?env' = "exEnv (Inr (?m, exBadSpec, exStatus CustomStateError)) (True, None) (True, None)"
  have h1: "prototype ?r = CustomObject (exMeta None []) exSpec (exStatus [])"
    by (simp add: exReconciler_def exTyped_def)
  have h2: "client_Get ?env exRequest = Inr (?m, exBadSpec, exStatus CustomStateDeleting)"
    by (simp add: exEnv_def)
  have h3: "State (exStatus CustomStateDeleting) = CustomStateDeleting"
    by (simp add: exStatus_def)
  have h4: "deletionFinalizer \<in> set (Finalizers ?m)"
    by (simp add: exMeta_def)
  have h5: "getManifestClient ?env (ChartFlags exBadSpec) = Inl (Failure ''key namespace has no value'')"
    by (simp add: getManifestClient_def exEnv_def exBadSpec_def exParseInto_def)
  have h6: "client_Get ?env' exRequest
              = Inr (?m, exBadSpec, (exStatus CustomStateDeleting)\<lparr>State := CustomStateError\<rparr>)"
    by (simp add: exEnv_def exStatus_def)
  have h7: "\<not> IsZero (DeletionTimestamp ?m)"
    by (simp add: exMeta_def IsZero_def)
  note inst = deleting_pass_writes_deleting_or_error
               [OF h1 h2 h3, of "Failure ''key namespace has no value''" ?env']
  have a1: "actions (Reconcile ?r ?env exRequest)
              = [ActStatusUpdate (CustomObject ?m exBadSpec (exStatus CustomStateError))]"
    using inst h4 h5 by (simp add: exStatus_def)
  have a2: "actions (Reconcile ?r ?env' exRequest)
              = [ActStatusUpdate (CustomObject ?m exBadSpec (exStatus CustomStateDeleting))]"
    using inst h6 h7 by (simp add: exStatus_def)
  have a3: "\<exists>st'. typedStatus (CustomObject ?m exBadSpec (exStatus CustomStateError)) = Some st'
         \<and> (State st' = CustomStateDeleting \<or> State st' = CustomStateError)"
    using inst a1 by simp
  show ?thesis
    using h3 h4 h5 h7 a1 a2 a3 by simp
qed

subsection \<open>Failures inside a handler\<close>

lemma Reconcile_never_installs:
  "\<forall>a \<in> set (actions (Reconcile r env req)). \<not> isInstall a"
  by (auto simp: Reconcile_def reconcileObject_def handler_defs
      AddFinalizer_def Let_def withResult_def SetFinalizers_def
      split: BaseCustomObject.splits sum.splits outcome.splits prod.splits option.splits if_splits)

text \<open>
  C5. No pass of \<open>Reconcile\<close> calls \<open>Install\<close>: for a typed resource in
  \<open>Processing\<close> whose flags parse the pass panics before the call. The processing
  handler on an unstructured object does call \<open>Install\<close>; when the call fails it
  returns the error of writing the status, sends no status update, and so leaves the
  state \<open>Processing\<close> and hands an error to its caller.
\<close>

theorem install_error_not_absorbed:
  "list_all (\<lambda>a. \<not> isInstall a) (actions (Reconcile r env req))
   \<and> Reconcile (exReconciler (exTyped None [] []) [])
        (exEnv (Inr (exMeta None [deletionFinalizer], exSpec, exStatus CustomStateProcessing))
           (False, Some (Failure ''install failed'')) (True, None))
        exRequest
       = \<lparr>engine = exReconciler (exTyped None [] []) [], actions = [], returned = Panicked\<rparr>
   \<and> ops_Install (exEnv (Inl NotFound) (False, Some (Failure ''install failed'')) (True, None))
        \<lparr>ChartInfo_ChartPath = ChartPath exSpec, ChartInfo_ReleaseName = ReleaseName exSpec,
          BaseResource = exGeneric None [deletionFinalizer] CustomStateProcessing,
          CheckReadyStates = True\<rparr>
       = (False, Some (Failure ''install failed''))
   \<and> HandleProcessingState (exReconciler (exTyped None [] []) [])
        (exEnv (Inl NotFound) (False, Some (Failure ''install failed'')) (True, None))
        (exGeneric None [deletionFinalizer] CustomStateProcessing)
       = ([ActInstall \<lparr>ChartInfo_ChartPath = ChartPath exSpec, ChartInfo_ReleaseName = ReleaseName exSpec,
                       BaseResource = exGeneric None [deletionFinalizer] CustomStateProcessing,
                       CheckReadyStates = True\<rparr>],
          Returned (Some (Errorf ''unable to convert unstructured to addonStatus''
            (Failure ''ToUnstructured requires a non-nil pointer to an object''))))"
proof -
  have "Reconcile (exReconciler (exTyped None [] []) [])
        (exEnv (Inr (exMeta None [deletionFinalizer], exSpec, exStatus CustomStateProcessing))
           (False, Some (Failure ''install failed'')) (True, None))
        exRequest
       = \<lparr>engine = exReconciler (exTyped None [] []) [], actions = [], returned = Panicked\<rparr>"
    by (simp add: eval_defs)
  moreover have "HandleProcessingState (exReconciler (exTyped None [] []) [])
        (exEnv (Inl NotFound) (False, Some (Failure ''install failed'')) (True, None))
        (exGeneric None [deletionFinalizer] CustomStateProcessing)
       = ([ActInstall \<lparr>ChartInfo_ChartPath = ChartPath exSpec, ChartInfo_ReleaseName = ReleaseName exSpec,
                       BaseResource = exGeneric None [deletionFinalizer] CustomStateProcessing,
                       CheckReadyStates = True\<rparr>],
          Returned (Some (Errorf ''unable to convert unstructured to addonStatus''
            (Failure ''ToUnstructured requires a non-nil pointer to an object''))))"
    by (simp add: eval_defs)
  ultimately show ?thesis
    using Reconcile_never_installs [of r env req]
    by (simp add: list_all_iff exEnv_def)
qed

text \<open>
  A typed resource in \<open>Processing\<close> that carries the finalizer and whose chart flags
  are a lone key: the pass commits the state \<open>Error\<close> and returns no error.
\<close>

theorem unparsable_flags_commit_error:
  "State (exStatus CustomStateProcessing) = CustomStateProcessing
   \<and> strvals_ParseInto (exEnv (Inr (exMeta None [deletionFinalizer], exBadSpec, exStatus CustomStateProcessing))
           (True, None) (True, None)) (ChartFlags exBadSpec)
       = Inl (Failure ''key namespace has no value'')
   \<and> Reconcile (exReconciler (exTyped None [] []) [])
        (exEnv (Inr (exMeta None [deletionFinalizer], exBadSpec, exStatus CustomStateProcessing))
           (True, None) (True, None))
        exRequest
       = \<lparr>engine = exReconciler (exTyped None [] []) [],
          actions = [ActStatusUpdate (CustomObject (exMeta None [deletionFinalizer]) exBadSpec
                       (exStatus CustomStateError))],
          returned = Returned (\<lparr>Requeue = False, RequeueAfter = 0\<rparr>, None)\<rparr>"
  by (simp add: eval_defs)

text \<open>
  C6 (amended). When a loaded resource that carries the finalizer is in
  \<open>Processing\<close> (without deletion intent) or in \<open>Deleting\<close> and its chart flags do
  not parse, the pass sets the state to \<open>Error\<close>, sends that status update as its
  only action and returns the result of the update; the parse error is not returned.
\<close>

theorem unparsable_flags_set_error_state:
  assumes "prototype r = CustomObject pm psp pst"
      and "client_Get env req = Inr (m, sp, st)"
      and "deletionFinalizer \<in> set (Finalizers m)"
      and "(State st = CustomStateProcessing \<and> IsZero (DeletionTimestamp m))
             \<or> State st = CustomStateDeleting"
      and "strvals_ParseInto env (ChartFlags sp) = Inl err"
  shows "Reconcile r env req =
           \<lparr>engine = r,
            actions = [ActStatusUpdate (CustomObject m sp (st\<lparr>State := CustomStateError\<rparr>))],
            returned = Returned (ctrl_Result_empty,
              client_Status_Update env (CustomObject m sp (st\<lparr>State := CustomStateError\<rparr>)))\<rparr>"
  using assms
  by (auto simp: Reconcile_def reconcileObject_def HandleProcessingState_def
      HandleDeletingState_def setStatusAndUpdate_def getManifestClient_def AddFinalizer_def
      GetFinalizers_def GetDeletionTimestamp_def withResult_def
      CustomStateProcessing_def CustomStateDeleting_def)

theorem unparsable_flags_set_error_state_witness:
  "deletionFinalizer \<in> set (Finalizers (exMeta None [deletionFinalizer]))
   \<and> State (exStatus CustomStateProcessing) = CustomStateProcessing
   \<and> IsZero (DeletionTimestamp (exMeta None [deletionFinalizer]))
   \<and> strvals_ParseInto (exEnv (Inr (exMeta None [deletionFinalizer], exBadSpec, exStatus CustomStateProcessing))
           (True, None) (True, None)) (ChartFlags exBadSpec)
       = Inl (Failure ''key namespace has no value'')
   \<and> actions (Reconcile (exReconciler (exTyped None [] []) [])
        (exEnv (Inr (exMeta None [deletionFinalizer], exBadSpec, exStatus CustomStateProcessing))
           (True, None) (True, None))
        exRequest)
       = [ActStatusUpdate (CustomObject (exMeta None [deletionFinalizer]) exBadSpec
            (exStatus CustomStateError))]"
proof -
  let ?r = "exReconciler (exTyped None [] []) []"
  let ?env = "exEnv (Inr (exMeta None [deletionFinalizer], exBadSpec, exStatus CustomStateProcessing))
           (True, None) (True, None)"
  have h1: "prototype ?r = CustomObject (exMeta None []) exSpec (exStatus [])"
    by (simp add: exReconciler_def exTyped_def)
  have h2: "client_Get ?env exRequest
              = Inr (exMeta None [deletionFinalizer], exBadSpec, exStatus CustomStateProcessing)"
    by (simp add: exEnv_def)
  have h3: "deletionFinalizer \<in> set (Finalizers (exMeta None [deletionFinalizer]))"
    by (simp add: exMeta_def)
  have h4: "State (exStatus CustomStateProcessing) = CustomStateProcessing"
    by (simp add: exStatus_def)
  have h5: "IsZero (DeletionTimestamp (exMeta None [deletionFinalizer]))"
    by (simp add: exMeta_def IsZero_def)
  have h6: "strvals_ParseInto ?env (ChartFlags exBadSpec) = Inl (Failure ''key namespace has no value'')"
    by (simp add: exEnv_def exBadSpec_def exParseInto_def)
  have h45: "(State (exStatus CustomStateProcessing) = CustomStateProcessing
                \<and> IsZero (DeletionTimestamp (exMeta None [deletionFinalizer])))
             \<or> State (exStatus CustomStateProcessing) = CustomStateDeleting"
    using h4 h5 by simp
  show ?thesis
    using unparsable_flags_set_error_state [OF h1 h2 h3 h45 h6] h3 h4 h5 h6
    by (simp add: exStatus_def)
qed

subsection \<open>The two representations\<close>

text \<open>
  C8. The same resource in state \<open>Error\<close>, with the same collaborators: with a typed
  prototype the pass commits the state \<open>Processing\<close>; with an unstructured prototype
  \<open>Reconcile\<close> returns the type error and commits nothing. In the handlers
  themselves the error handler commits \<open>Processing\<close> for the typed object and returns
  the error of the status converter, committing nothing, for the unstructured one;
  the processing handler panics on the typed object and, on the unstructured one,
  calls \<open>Install\<close> and then fails to write the state \<open>Ready\<close>.
\<close>

theorem representations_diverge:
  "actions (Reconcile (exReconciler (exTyped None [] []) [])
      (exEnv (Inr (exMeta None [deletionFinalizer], exSpec, exStatus CustomStateError))
         (True, None) (True, None)) exRequest)
     = [ActStatusUpdate (exTyped None [deletionFinalizer] CustomStateProcessing)]
   \<and> Reconcile (exReconciler (exGeneric None [] []) [])
      (exEnv (Inr (exMeta None [deletionFinalizer], exSpec, exStatus CustomStateError))
         (True, None) (True, None)) exRequest
     = \<lparr>engine = exReconciler (exGeneric None [] []) [], actions = [],
        returned = Returned (\<lparr>Requeue = False, RequeueAfter = 0\<rparr>,
          Some (TypeError ''invalid custom resource object type for reconciliation default/sample''))\<rparr>
   \<and> HandleErrorState (exReconciler (exTyped None [] []) [])
        (exEnv (Inl NotFound) (True, None) (True, None))
        (exTyped None [deletionFinalizer] CustomStateError)
     = ([ActStatusUpdate (exTyped None [deletionFinalizer] CustomStateProcessing)], Returned None)
   \<and> HandleErrorState (exReconciler (exTyped None [] []) [])
        (exEnv (Inl NotFound) (True, None) (True, None))
        (exGeneric None [deletionFinalizer] CustomStateError)
     = ([], Returned (Some (Errorf ''unable to convert unstructured to addonStatus''
            (Failure ''ToUnstructured requires a non-nil pointer to an object''))))
   \<and> HandleProcessingState (exReconciler (exTyped None [] []) [])
        (exEnv (Inl NotFound) (True, None) (True, None))
        (exTyped None [deletionFinalizer] CustomStateProcessing)
     = ([], Panicked)
   \<and> HandleProcessingState (exReconciler (exTyped None [] []) [])
        (exEnv (Inl NotFound) (True, None) (True, None))
        (exGeneric None [deletionFinalizer] CustomStateProcessing)
     = ([ActInstall \<lparr>ChartInfo_ChartPath = ChartPath exSpec, ChartInfo_ReleaseName = ReleaseName exSpec,
                     BaseResource = exGeneric None [deletionFinalizer] CustomStateProcessing,
                     CheckReadyStates = True\<rparr>],
        Returned (Some (Errorf ''unable to convert unstructured to addonStatus''
            (Failure ''ToUnstructured requires a non-nil pointer to an object''))))"
  by (simp add: eval_defs)

subsection \<open>State of the reconciler between passes\<close>

text \<open>
  Two passes from the same persisted resource (state empty, finalizer present) with the
  same collaborators, the reconciler holding one pending resource label: the first
  pass updates the labels of the resource, the second sets the state \<open>Processing\<close>.
\<close>

theorem pending_labels_change_replay:
  "actions (Reconcile (exReconciler (exTyped None [] []) [(''team'', ''core'')])
      (exEnv (Inr (exMeta None [deletionFinalizer], exSpec, exStatus []))
         (True, None) (True, None)) exRequest)
     = [ActUpdate (CustomObject ((exMeta None [deletionFinalizer])\<lparr>Labels := Some [(''team'', ''core'')]\<rparr>)
          exSpec (exStatus []))]
   \<and> actions (Reconcile
        (engine (Reconcile (exReconciler (exTyped None [] []) [(''team'', ''core'')])
           (exEnv (Inr (exMeta None [deletionFinalizer], exSpec, exStatus []))
              (True, None) (True, None)) exRequest))
        (exEnv (Inr (exMeta None [deletionFinalizer], exSpec, exStatus []))
           (True, None) (True, None)) exRequest)
     = [ActStatusUpdate (exTyped None [deletionFinalizer] CustomStateProcessing)]"
  by (simp add: eval_defs)

lemma HandleInitialState_engine:
  "HandleInitialState r env obj = (r', acts, res) \<Longrightarrow>
     r' = r \<or> r' = r\<lparr>options := (options r)\<lparr>resourceLabels := []\<rparr>\<rparr>"
  by (auto simp: HandleInitialState_def Let_def split: sum.splits option.splits prod.splits if_splits)

lemma reconcileObject_engine:
  "engine (reconcileObject r env obj) = r
   \<or> engine (reconcileObject r env obj) = r\<lparr>options := (options r)\<lparr>resourceLabels := []\<rparr>\<rparr>"
  unfolding reconcileObject_def
  by (auto split: sum.splits prod.splits bool.splits dest: HandleInitialState_engine)

lemma Reconcile_engine:
  "engine (Reconcile r env req) = r
   \<or> engine (Reconcile r env req) = r\<lparr>options := (options r)\<lparr>resourceLabels := []\<rparr>\<rparr>"
  using reconcileObject_engine
  by (simp add: Reconcile_def split: BaseCustomObject.splits sum.splits prod.splits)

lemma Reconcile_engine_unchanged:
  "resourceLabels (options r) = [] \<Longrightarrow> engine (Reconcile r env req) = r"
  using Reconcile_engine [of r env req] by auto

text \<open>
  C9 (amended). The pending resource labels are the only state the reconciler keeps
  between passes: a pass returns the reconciler as it was, or with the pending labels
  cleared. Without pending labels a pass leaves the reconciler unchanged, so a second
  pass from the same persisted resource with the same collaborators is the same pass:
  same actions, same written resource, same result.
\<close>

theorem pass_replayable_without_pending_labels:
  "(engine (Reconcile r env req) = r
      \<or> engine (Reconcile r env req) = r\<lparr>options := (options r)\<lparr>resourceLabels := []\<rparr>\<rparr>)
   \<and> (resourceLabels (options r) = [] \<longrightarrow>
        engine (Reconcile r env req) = r
        \<and> Reconcile (engine (Reconcile r env req)) env req = Reconcile r env req)"
  using Reconcile_engine [of r env req] Reconcile_engine_unchanged [of r env req]
  by auto

theorem pass_replayable_without_pending_labels_witness:
  "resourceLabels (options (exReconciler (exTyped None [] []) [])) = []
   \<and> engine (Reconcile (exReconciler (exTyped None [] []) [])
        (exEnv (Inr (exMeta None [deletionFinalizer], exSpec, exStatus []))
           (True, None) (True, None)) exRequest)
       = exReconciler (exTyped None [] []) []
   \<and> actions (Reconcile
        (engine (Reconcile (exReconciler (exTyped None [] []) [])
           (exEnv (Inr (exMeta None [deletionFinalizer], exSpec, exStatus []))
              (True, None) (True, None)) exRequest))
        (exEnv (Inr (exMeta None [deletionFinalizer], exSpec, exStatus []))
           (True, None) (True, None)) exRequest)
       = [ActStatusUpdate (exTyped None [deletionFinalizer] CustomStateProcessing)]"
proof -
  let ?r = "exReconciler (exTyped None [] []) []"
  let ?env = "exEnv (Inr (exMeta None [deletionFinalizer], exSpec, exStatus []))
           (True, None) (True, None)"
  have h: "resourceLabels (options ?r) = []"
    by (simp add: exReconciler_def)
  have a: "actions (Reconcile ?r ?env exRequest)
             = [ActStatusUpdate (exTyped None [deletionFinalizer] CustomStateProcessing)]"
    by (simp add: eval_defs)
  show ?thesis
    using pass_replayable_without_pending_labels [of ?r ?env exRequest] h a
    by simp
qed

end
